theory Spec2Isabelle
  imports Complex_Main
begin

section \<open>ECI to ECEF conversion (eci_to_ecef.py)\<close>

text \<open>
  The script converts an Earth-Centered Inertial position to Earth-Centered Earth-Fixed
  coordinates at a civil time. Python's \<^verbatim>\<open>int\<close> is modelled by \<^typ>\<open>int\<close>.
  Python's \<^verbatim>\<open>float\<close> is modelled by \<^typ>\<open>real\<close>: every decimal literal denotes the
  rational number it spells and every operation is the exact one, so rounding, infinities
  and NaN are outside the model.
\<close>

subsection \<open>Python primitives used by the script\<close>

text \<open>\<^verbatim>\<open>int(x)\<close> on a float: truncation toward zero.\<close>

definition py_int :: "real \<Rightarrow> int" where
  "py_int r = (if 0 \<le> r then \<lfloor>r\<rfloor> else \<lceil>r\<rceil>)"

text \<open>
  \<^verbatim>\<open>x % y\<close> on floats: the result takes the sign of the divisor, that is
  \<open>x - y * floor (x / y)\<close>. The script only calls it with the divisor \<open>24\<close>.
\<close>

definition py_fmod :: "real \<Rightarrow> real \<Rightarrow> real" where
  "py_fmod x y = x - y * real_of_int \<lfloor>x / y\<rfloor>"

text \<open>\<^verbatim>\<open>math.radians\<close>: degrees to radians.\<close>

definition radians :: "real \<Rightarrow> real" where
  "radians d = d * pi / 180"

subsection \<open>Calendar date to Julian Date\<close>

text \<open>
  \<^verbatim>\<open>ymdhms_to_julian_date\<close>. The operator \<^verbatim>\<open>//\<close> on Python integers is floor
  division, which is \<open>div\<close> on \<^typ>\<open>int\<close>; the two float products go through
  \<^verbatim>\<open>int(...)\<close>.
\<close>

definition ymdhms_to_julian_date ::
  "int \<Rightarrow> int \<Rightarrow> int \<Rightarrow> int \<Rightarrow> int \<Rightarrow> real \<Rightarrow> real" where
  "ymdhms_to_julian_date year month day hour minute second =
     (let (year, month) = (if month \<le> 2 then (year - 1, month + 12) else (year, month));
          A = year div 100;
          B = 2 - A + A div 4;
          jd_int = real_of_int (py_int (365.25 * real_of_int (year + 4716))
                     + py_int (30.6001 * real_of_int (month + 1)) + day + B) - 1524.5;
          frac_day = (real_of_int hour + real_of_int minute / 60.0 + second / 3600.0) / 24.0
      in jd_int + frac_day)"

subsection \<open>Julian Date to Greenwich Sidereal Time\<close>

text \<open>
  \<^verbatim>\<open>gst_from_julian_date\<close>. The intermediate \<^verbatim>\<open>GST_hours\<close> of the source is a
  definition of its own so that it can be talked about.
\<close>

definition JD2000 :: real where
  "JD2000 = 2451545.0"

definition GST_sec :: "real \<Rightarrow> real" where
  "GST_sec julian_date =
     (let T = (julian_date - JD2000) / 36525.0
      in (280.46061837 + 360.98564736629 * (julian_date - JD2000)
            + T * T * (0.000387933 - T / 38710000)) * 3600)"

definition GST_hours :: "real \<Rightarrow> real" where
  "GST_hours julian_date = py_fmod (GST_sec julian_date / 3600) 24"

definition gst_from_julian_date :: "real \<Rightarrow> real" where
  "gst_from_julian_date julian_date = radians (GST_hours julian_date * 15) - 1.02581572"

subsection \<open>Rotation about the polar axis\<close>

definition eci_to_ecef :: "real \<Rightarrow> real \<Rightarrow> real \<Rightarrow> real \<Rightarrow> real \<times> real \<times> real" where
  "eci_to_ecef eci_x_km eci_y_km eci_z_km gst_rad =
     (let ecef_x_km = cos gst_rad * eci_x_km + sin gst_rad * eci_y_km;
          ecef_y_km = (- sin gst_rad) * eci_x_km + cos gst_rad * eci_y_km;
          ecef_z_km = eci_z_km
      in (ecef_x_km, ecef_y_km, ecef_z_km))"

subsection \<open>The command-line program\<close>

text \<open>
  \<^verbatim>\<open>main\<close> reads \<^verbatim>\<open>sys.argv\<close> (the script name followed by the arguments), prints to
  standard output and either returns, leaves through \<^verbatim>\<open>sys.exit\<close>, or dies with the
  exception of a failed conversion. Standard output is the state that is passed through:
  the list of lines printed so far. A printed float is kept as the number itself.

  The built-in conversions \<^verbatim>\<open>int(s)\<close> and \<^verbatim>\<open>float(s)\<close> are not code of this script;
  they are parameters \<open>int_of\<close> and \<open>float_of\<close>, with \<open>None\<close> where the built-in raises
  \<^verbatim>\<open>ValueError\<close>. The arguments are converted in the order of the source.
\<close>

datatype py_exception = ValueError

datatype outcome = Returned | SysExit int | Raised py_exception

datatype printed = Text string | Num real

definition usage :: string where
  "usage = ''Usage: python3 eci_to_ecef.py year month day hour minute second eci_x_km eci_y_km eci_z_km''"

definition print_line :: "printed \<Rightarrow> printed list \<Rightarrow> printed list" where
  "print_line p out = out @ [p]"

definition main ::
  "(string \<Rightarrow> int option) \<Rightarrow> (string \<Rightarrow> real option) \<Rightarrow> string list \<Rightarrow> printed list
     \<Rightarrow> outcome \<times> printed list" where
  "main int_of float_of argv out =
     (if length argv \<noteq> 10 then (SysExit 1, print_line (Text usage) out)
      else
       (case int_of (argv ! 1) of None \<Rightarrow> (Raised ValueError, out) | Some year \<Rightarrow>
       (case int_of (argv ! 2) of None \<Rightarrow> (Raised ValueError, out) | Some month \<Rightarrow>
       (case int_of (argv ! 3) of None \<Rightarrow> (Raised ValueError, out) | Some day \<Rightarrow>
       (case int_of (argv ! 4) of None \<Rightarrow> (Raised ValueError, out) | Some hour \<Rightarrow>
       (case int_of (argv ! 5) of None \<Rightarrow> (Raised ValueError, out) | Some minute \<Rightarrow>
       (case float_of (argv ! 6) of None \<Rightarrow> (Raised ValueError, out) | Some second \<Rightarrow>
       (case float_of (argv ! 7) of None \<Rightarrow> (Raised ValueError, out) | Some eci_x_km \<Rightarrow>
       (case float_of (argv ! 8) of None \<Rightarrow> (Raised ValueError, out) | Some eci_y_km \<Rightarrow>
       (case float_of (argv ! 9) of None \<Rightarrow> (Raised ValueError, out) | Some eci_z_km \<Rightarrow>
         (let jd = ymdhms_to_julian_date year month day hour minute second;
              gst_rad = gst_from_julian_date jd;
              (ecef_x_km, ecef_y_km, ecef_z_km) = eci_to_ecef eci_x_km eci_y_km eci_z_km gst_rad
          in (Returned,
              print_line (Num ecef_z_km)
                (print_line (Num ecef_y_km) (print_line (Num ecef_x_km) out))))))))))))))"

subsection \<open>The algorithms as the specification words them\<close>

text \<open>
  Integer division that truncates toward zero, the semantics the specification names for
  the Julian Date computation.
\<close>

definition div_toward_zero :: "int \<Rightarrow> int \<Rightarrow> int" where
  "div_toward_zero n d =
     (if (n < 0) = (d < 0) then \<bar>n\<bar> div \<bar>d\<bar> else - (\<bar>n\<bar> div \<bar>d\<bar>))"

text \<open>
  The Gregorian correction term \<open>B = 2 - A + A / 4\<close> with \<open>A = year / 100\<close>, and the Meeus
  formula around it, for a given integer division \<open>idiv\<close>. The two real products are
  truncated toward zero.
\<close>

definition leap_correction :: "(int \<Rightarrow> int \<Rightarrow> int) \<Rightarrow> int \<Rightarrow> int" where
  "leap_correction idiv year = (let A = idiv year 100 in 2 - A + idiv A 4)"

definition adjusted_year :: "int \<Rightarrow> int \<Rightarrow> int" where
  "adjusted_year year month = (if month \<le> 2 then year - 1 else year)"

definition adjusted_month :: "int \<Rightarrow> int" where
  "adjusted_month month = (if month \<le> 2 then month + 12 else month)"

definition meeus_julian_date ::
  "(int \<Rightarrow> int \<Rightarrow> int) \<Rightarrow> int \<Rightarrow> int \<Rightarrow> int \<Rightarrow> int \<Rightarrow> int \<Rightarrow> real \<Rightarrow> real" where
  "meeus_julian_date idiv year month day hour minute second =
     (let y = adjusted_year year month;
          m = adjusted_month month;
          B = leap_correction idiv y
      in real_of_int (py_int (365.25 * real_of_int (y + 4716)))
         + real_of_int (py_int (30.6001 * real_of_int (m + 1)))
         + real_of_int day + real_of_int B - 1524.5
         + (real_of_int hour + real_of_int minute / 60 + second / 3600) / 24)"

text \<open>
  The true modulo on the reals, with a result in \<open>[0, m)\<close> for positive \<open>m\<close>, and the
  sidereal angle of the specification.
\<close>

definition true_mod :: "real \<Rightarrow> real \<Rightarrow> real" where
  "true_mod x m = m * frac (x / m)"

definition sidereal_angle_spec :: "real \<Rightarrow> real" where
  "sidereal_angle_spec JD =
     (let T = (JD - 2451545.0) / 36525.0;
          GST_seconds = (280.46061837 + 360.98564736629 * (JD - 2451545.0)
                          + T\<^sup>2 * (0.000387933 - T / 38710000)) * 3600;
          hours = true_mod (GST_seconds / 3600) 24
      in hours * 15 * pi / 180 - 1.02581572)"

section \<open>Properties\<close>

subsection \<open>Auxiliary facts\<close>

lemma py_fmod_range: "0 < y \<Longrightarrow> 0 \<le> py_fmod x y \<and> py_fmod x y < y"
proof -
  assume y: "0 < y"
  have lo: "real_of_int \<lfloor>x / y\<rfloor> * y \<le> x"
    using y by (rule floor_divide_lower)
  have hi: "x < (real_of_int \<lfloor>x / y\<rfloor> + 1) * y"
    using y by (rule floor_divide_upper)
  from lo hi show ?thesis
    by (simp add: py_fmod_def algebra_simps)
qed

lemma py_fmod_true_mod: "0 < y \<Longrightarrow> py_fmod x y = true_mod x y"
  by (simp add: py_fmod_def true_mod_def frac_def algebra_simps)

lemma GST_hours_range: "0 \<le> GST_hours jd \<and> GST_hours jd < 24"
  unfolding GST_hours_def by (rule py_fmod_range) simp

lemma radians_hours: "radians (h * 15) = h * (pi / 12)"
  by (simp add: radians_def)

lemma div_toward_zero_nonneg: "0 \<le> a \<Longrightarrow> 0 < b \<Longrightarrow> div_toward_zero a b = a div b"
  by (cases "a = 0") (simp_all add: div_toward_zero_def)

lemma div_toward_zero_neg:
  "a < 0 \<Longrightarrow> 0 < b \<Longrightarrow> div_toward_zero a b = (if a mod b = 0 then a div b else a div b + 1)"
  by (simp add: div_toward_zero_def zdiv_zminus1_eq_if)

lemma div_toward_zero_4: "div_toward_zero a 4 = (if 0 \<le> a \<or> a mod 4 = 0 then a div 4 else a div 4 + 1)"
  by (cases "0 \<le> a") (simp_all add: div_toward_zero_nonneg div_toward_zero_neg)

lemma div_toward_zero_100:
  "div_toward_zero a 100 = (if 0 \<le> a \<or> a mod 100 = 0 then a div 100 else a div 100 + 1)"
  by (cases "0 \<le> a") (simp_all add: div_toward_zero_nonneg div_toward_zero_neg)

lemma dvd_400_iff: "100 dvd y \<Longrightarrow> 400 dvd y \<longleftrightarrow> 4 dvd y div (100::int)"
proof -
  assume "100 dvd y"
  then obtain k where k: "y = 100 * k" ..
  have "(100 * 4 dvd 100 * k) = (4 dvd k)"
    by (simp only: dvd_mult_cancel_left) simp
  then show ?thesis by (simp add: k)
qed

lemma div4_succ_nonzero:
  "A < 0 \<Longrightarrow> (A + 1) mod 4 \<noteq> 0 \<Longrightarrow> (A + 1) div 4 + 1 = A div 4 + (1::int)"
  by presburger

lemma div4_succ_zero: "(A + 1) mod 4 = 0 \<Longrightarrow> (A + 1) div 4 = A div 4 + (1::int)"
  by presburger

lemma leap_correction_iff:
  "leap_correction (div) y = leap_correction div_toward_zero y
     \<longleftrightarrow> (0 \<le> y \<or> \<not> 100 dvd y \<or> 400 dvd y)"
proof (cases "0 \<le> y")
  case True
  then have "0 \<le> y div 100" by simp
  with True show ?thesis
    by (simp add: leap_correction_def Let_def div_toward_zero_100 div_toward_zero_4)
next
  case neg: False
  then have A: "y div 100 < 0" by simp
  show ?thesis
  proof (cases "100 dvd y")
    case True
    then have m: "y mod 100 = 0" by presburger
    have "y div 100 div 4 = div_toward_zero (y div 100) 4 \<longleftrightarrow> 4 dvd y div 100"
      using A by (simp add: div_toward_zero_4 mod_eq_0_iff_dvd)
    with neg True m show ?thesis
      by (simp add: leap_correction_def Let_def div_toward_zero_100 dvd_400_iff)
  next
    case False
    then have m: "y mod 100 \<noteq> 0" by presburger
    have "div_toward_zero (y div 100 + 1) 4 = y div 100 div 4 + 1"
    proof (cases "y div 100 + 1 = 0")
      case True
      then have "y div 100 = -1" by simp
      then show ?thesis by (simp add: div_toward_zero_4)
    next
      case False
      with A have "\<not> 0 \<le> y div 100 + 1" by simp
      then show ?thesis
        using A by (simp add: div_toward_zero_4 div4_succ_nonzero div4_succ_zero)
    qed
    with neg False m show ?thesis
      by (simp add: leap_correction_def Let_def div_toward_zero_100)
  qed
qed

lemma ymdhms_meeus_floor:
  "ymdhms_to_julian_date year month day hour minute second
     = meeus_julian_date (div) year month day hour minute second"
  by (simp add: ymdhms_to_julian_date_def meeus_julian_date_def leap_correction_def
      adjusted_year_def adjusted_month_def Let_def)

lemma meeus_eq_iff:
  "meeus_julian_date f year month day hour minute second
     = meeus_julian_date g year month day hour minute second
   \<longleftrightarrow> leap_correction f (adjusted_year year month) = leap_correction g (adjusted_year year month)"
  by (simp add: meeus_julian_date_def Let_def)


lemma eci_to_ecef_z: "snd (snd (eci_to_ecef x y z theta)) = z"
  by (simp add: eci_to_ecef_def)

text \<open>
  C1. For every input vector and every angle \<open>theta\<close>, \<open>eci_to_ecef\<close> returns the passive
  rotation about the Z axis: \<open>(cos theta * x + sin theta * y, - sin theta * x + cos theta * y, z)\<close>.
\<close>

theorem eci_to_ecef_formula:
  "eci_to_ecef eci_x_km eci_y_km eci_z_km theta =
     (cos theta * eci_x_km + sin theta * eci_y_km,
      - sin theta * eci_x_km + cos theta * eci_y_km,
      eci_z_km)"
  by (simp add: eci_to_ecef_def)

text \<open>
  C2 (as amended). For every timestamp the converter returns the Meeus value in which
  \<open>A\<close> and \<open>B\<close> are taken by floor division (Python's \<^verbatim>\<open>//\<close>) and the two real
  products are truncated toward zero. That value equals the one with truncating division
  for \<open>A\<close> and \<open>B\<close> exactly when the adjusted year is non-negative, or is not a multiple
  of 100, or is a multiple of 400.
\<close>

theorem julian_date_meeus:
  "ymdhms_to_julian_date year month day hour minute second
     = meeus_julian_date (div) year month day hour minute second
   \<and> (ymdhms_to_julian_date year month day hour minute second
         = meeus_julian_date div_toward_zero year month day hour minute second
        \<longleftrightarrow> (0 \<le> adjusted_year year month \<or> \<not> 100 dvd adjusted_year year month
              \<or> 400 dvd adjusted_year year month))"
  by (simp only: ymdhms_meeus_floor meeus_eq_iff leap_correction_iff simp_thms)

theorem julian_date_meeus_witness:
  "0 \<le> adjusted_year 2024 1
   \<and> ymdhms_to_julian_date 2024 1 1 0 0 0 = meeus_julian_date div_toward_zero 2024 1 1 0 0 0"
  using julian_date_meeus [of 2024 1 1 0 0 0] by (simp add: adjusted_year_def)

text \<open>
  The claim with truncating division for every timestamp fails for 1 March of the year
  \<open>-100\<close>: the source computes \<open>A = -1\<close>, \<open>A // 4 = -1\<close> and \<open>B = 2\<close>, where truncation
  gives \<open>B = 3\<close>.
\<close>

theorem julian_date_truncating_counterexample:
  "ymdhms_to_julian_date (- 100) 3 1 0 0 0 = 1684594.5
   \<and> meeus_julian_date div_toward_zero (- 100) 3 1 0 0 0 = 1684595.5
   \<and> ymdhms_to_julian_date (- 100) 3 1 0 0 0 \<noteq> meeus_julian_date div_toward_zero (- 100) 3 1 0 0 0"
  by (simp add: ymdhms_to_julian_date_def meeus_julian_date_def leap_correction_def
      adjusted_year_def adjusted_month_def py_int_def div_toward_zero_def)

text \<open>
  C3. For every Julian Date the calculator returns the angle the specification words:
  \<open>radians (GST_hours * 15) - 1.02581572\<close> with \<open>GST_hours\<close> the true modulo 24 of
  \<open>GST_seconds / 3600\<close>. No further reduction is applied: at Julian Date \<open>2451543.5\<close> the
  returned angle is negative.
\<close>

theorem gst_matches:
  "gst_from_julian_date JD = sidereal_angle_spec JD \<and> gst_from_julian_date 2451543.5 < 0"
proof
  have "py_fmod (GST_sec JD / 3600) 24 = true_mod (GST_sec JD / 3600) 24"
    by (rule py_fmod_true_mod) simp
  then show "gst_from_julian_date JD = sidereal_angle_spec JD"
    by (simp add: gst_from_julian_date_def sidereal_angle_spec_def GST_hours_def GST_sec_def
        JD2000_def radians_def Let_def power2_eq_square)
next
  define h where "h = GST_hours 2451543.5"
  have h3: "h < 3"
    by (simp add: h_def GST_hours_def GST_sec_def JD2000_def Let_def py_fmod_def)
  have h0: "0 \<le> h"
    unfolding h_def using GST_hours_range by blast
  have "pi / 12 \<le> 4 / 12"
    using pi_less_4 by simp
  then have "h * (pi / 12) \<le> h * (4 / 12)"
    using h0 by (rule mult_left_mono)
  also have "\<dots> < 1"
    using h3 by simp
  finally have small: "h * (pi / 12) < 1" .
  have "gst_from_julian_date 2451543.5 = h * (pi / 12) - 1.02581572"
    by (simp only: gst_from_julian_date_def radians_hours h_def)
  also have "\<dots> < 1 - 1.02581572"
    using small by (rule diff_strict_right_mono)
  also have "\<dots> < 0"
    by simp
  finally show "gst_from_julian_date 2451543.5 < 0" .
qed

text \<open>
  C4. For every Julian Date, before the epoch too, the intermediate \<open>GST_hours\<close> is the
  true modulo of \<open>GST_sec / 3600\<close> by 24 and lies in \<open>[0, 24)\<close>.
\<close>

theorem GST_hours_true_modulo:
  "GST_hours JD = true_mod (GST_sec JD / 3600) 24 \<and> 0 \<le> GST_hours JD \<and> GST_hours JD < 24"
proof -
  have "py_fmod (GST_sec JD / 3600) 24 = true_mod (GST_sec JD / 3600) 24"
    by (rule py_fmod_true_mod) simp
  then show ?thesis
    using GST_hours_range [of JD] by (simp add: GST_hours_def)
qed

text \<open>
  C5. For every vector and every timestamp the z component that the pipeline produces is
  the ECI z component; and whenever the program returns, the third line it prints is the
  number converted from its ninth argument.
\<close>

theorem ecef_z_unchanged:
  "snd (snd (eci_to_ecef x y z
       (gst_from_julian_date (ymdhms_to_julian_date year month day hour minute second)))) = z
   \<and> (fst (main int_of float_of argv out) = Returned \<longrightarrow>
        (\<exists>ex ey ez. float_of (argv ! 9) = Some ez
            \<and> snd (main int_of float_of argv out) = out @ [Num ex, Num ey, Num ez]))"
  by (simp add: eci_to_ecef_z main_def print_line_def case_prod_beta Let_def
      split: option.splits)

theorem ecef_z_unchanged_witness:
  "fst (main (map_of [(''2024'', 2024), (''1'', 1), (''0'', 0)])
             (map_of [(''0'', 0), (''7000'', 7000)])
             [''eci_to_ecef.py'', ''2024'', ''1'', ''1'', ''0'', ''0'', ''0'', ''7000'', ''0'', ''0'']
             []) = Returned
   \<and> (\<exists>ex ey.
        snd (main (map_of [(''2024'', 2024), (''1'', 1), (''0'', 0)])
                  (map_of [(''0'', 0), (''7000'', 7000)])
                  [''eci_to_ecef.py'', ''2024'', ''1'', ''1'', ''0'', ''0'', ''0'', ''7000'', ''0'', ''0'']
                  []) = [Num ex, Num ey, Num 0])"
proof -
  let ?I = "map_of [(''2024'', 2024::int), (''1'', 1), (''0'', 0)]"
  let ?F = "map_of [(''0'', 0::real), (''7000'', 7000)]"
  let ?argv = "[''eci_to_ecef.py'', ''2024'', ''1'', ''1'', ''0'', ''0'', ''0'', ''7000'', ''0'', ''0'']"
  have r: "fst (main ?I ?F ?argv []) = Returned"
    by (simp add: main_def case_prod_beta Let_def)
  have "fst (main ?I ?F ?argv []) = Returned \<longrightarrow>
        (\<exists>ex ey ez. ?F (?argv ! 9) = Some ez
            \<and> snd (main ?I ?F ?argv []) = [] @ [Num ex, Num ey, Num ez])"
    using ecef_z_unchanged [of 0 0 0 0 0 0 0 0 0 ?I ?F ?argv "[]"] by (rule conjunct2)
  with r obtain ex ey ez where
    "?F (?argv ! 9) = Some ez" "snd (main ?I ?F ?argv []) = [] @ [Num ex, Num ey, Num ez]"
    by blast
  then have "snd (main ?I ?F ?argv []) = [Num ex, Num ey, Num 0]"
    by simp
  with r show ?thesis by blast
qed

text \<open>
  C6. The rotation preserves the squared norm in the equatorial plane: for every vector and
  every angle, the sum of the squares of the ECEF x and y components equals that of the ECI
  x and y components.
\<close>

theorem eci_to_ecef_xy_norm:
  "(case eci_to_ecef x y z theta of (ex, ey, ez) \<Rightarrow> ex\<^sup>2 + ey\<^sup>2) = x\<^sup>2 + y\<^sup>2"
proof -
  have poly: "(c * x + s * y)\<^sup>2 + (- s * x + c * y)\<^sup>2 = (s\<^sup>2 + c\<^sup>2) * (x\<^sup>2 + y\<^sup>2)"
    for c s :: real
    by (simp add: power2_eq_square algebra_simps)
  have "(cos theta * x + sin theta * y)\<^sup>2 + (- sin theta * x + cos theta * y)\<^sup>2
        = ((sin theta)\<^sup>2 + (cos theta)\<^sup>2) * (x\<^sup>2 + y\<^sup>2)"
    by (rule poly)
  also have "\<dots> = x\<^sup>2 + y\<^sup>2"
    by (simp only: sin_cos_squared_add mult_1)
  finally show ?thesis
    by (simp add: eci_to_ecef_def)
qed

text \<open>
  C7. With a number of arguments other than nine (\<^verbatim>\<open>sys.argv\<close> of a length other than
  ten) the program prints the usage message and leaves with exit status 1, whatever the
  arguments are and whatever the conversions would have returned: nothing is converted
  or computed.
\<close>

theorem usage_error:
  "length argv \<noteq> 10 \<Longrightarrow> main int_of float_of argv out = (SysExit 1, out @ [Text usage])"
  by (simp add: main_def print_line_def)

theorem usage_error_witness:
  "length [''eci_to_ecef.py'', ''2024'', ''1'', ''1'', ''0'', ''0'', ''0'', ''7000'', ''0''] \<noteq> 10
   \<and> main (\<lambda>s. None) (\<lambda>s. None)
        [''eci_to_ecef.py'', ''2024'', ''1'', ''1'', ''0'', ''0'', ''0'', ''7000'', ''0''] []
      = (SysExit 1, [Text usage])
   \<and> length [''eci_to_ecef.py'', ''2024'', ''1'', ''1'', ''0'', ''0'', ''0'', ''7000'', ''0'', ''0'', ''extra''] \<noteq> 10
   \<and> main (\<lambda>s. None) (\<lambda>s. None)
        [''eci_to_ecef.py'', ''2024'', ''1'', ''1'', ''0'', ''0'', ''0'', ''7000'', ''0'', ''0'', ''extra''] []
      = (SysExit 1, [Text usage])"
  using usage_error [of "[''eci_to_ecef.py'', ''2024'', ''1'', ''1'', ''0'', ''0'', ''0'', ''7000'', ''0'']"
                        "\<lambda>s. None" "\<lambda>s. None" "[]"]
        usage_error [of "[''eci_to_ecef.py'', ''2024'', ''1'', ''1'', ''0'', ''0'', ''0'', ''7000'', ''0'', ''0'', ''extra'']"
                        "\<lambda>s. None" "\<lambda>s. None" "[]"]
  by simp

text \<open>
  C8. For 2024-01-01 00:00:00 the converter returns \<open>2460310.5\<close>.
\<close>

theorem julian_date_2024_01_01:
  "ymdhms_to_julian_date 2024 1 1 0 0 0 = 2460310.5"
  by (simp add: ymdhms_to_julian_date_def py_int_def)


text \<open>
  C10. For every Julian Date the returned angle lies in
  \<open>[- 1.02581572, 2 * pi - 1.02581572)\<close>.
\<close>

theorem gst_bounds:
  "- 1.02581572 \<le> gst_from_julian_date JD \<and> gst_from_julian_date JD < 2 * pi - 1.02581572"
proof -
  have r: "0 \<le> GST_hours JD" "GST_hours JD < 24"
    using GST_hours_range[of JD] by simp_all
  have p: "0 < pi / 12"
    by simp
  have lo: "0 \<le> GST_hours JD * (pi / 12)"
    using r(1) p by (simp only: mult_nonneg_nonneg less_imp_le)
  have "GST_hours JD * (pi / 12) < 24 * (pi / 12)"
    using r(2) p by (rule mult_strict_right_mono)
  then have hi: "GST_hours JD * (pi / 12) < 2 * pi"
    by simp
  from lo hi show ?thesis
    by (simp add: gst_from_julian_date_def radians_hours)
qed

text \<open>
  The intermediate \<open>GST_sec\<close> is negative one and a half days before the epoch, so the
  range of \<open>GST_hours\<close> above does cover negative operands of the modulo.
\<close>

lemma GST_sec_negative_before_epoch: "GST_sec 2451543.5 < 0"
  by (simp add: GST_sec_def JD2000_def Let_def)

end
